theory Spec2Isabelle
  imports Complex_Main "HOL-Library.AList"
begin

section \<open>Mesh planarisation and flatness (compas.datastructures.mesh.algorithms.planarisation)\<close>

text \<open>
  The module \<^verbatim>\<open>planarisation.py\<close> defines \<^verbatim>\<open>mesh_flatness\<close>, \<^verbatim>\<open>mesh_planarize\<close>,
  \<^verbatim>\<open>mesh_planarize_shapeop\<close> and \<^verbatim>\<open>mesh_circularize\<close>. It imports the geometry kernel
  (\<^verbatim>\<open>compas.geometry\<close>), the sliding \<^verbatim>\<open>window\<close> (\<^verbatim>\<open>compas.utilities\<close>) and works on a
  \<^verbatim>\<open>Mesh\<close> object; none of the three is part of the sources at hand. Coordinates are
  Python floats. The control flow, the exceptions and the bookkeeping of the module do not
  depend on how the kernel rounds, and are stated over a kernel in exact real arithmetic.
  Where the value of a new position is at stake, the kernel is a parameter of the
  iteration, and its binary64 instance is given below.
\<close>

subsection \<open>Exceptions\<close>

text \<open>
  Every exception that a call can end with is a value. \<open>InvalidCallbackError\<close> is the
  \<^verbatim>\<open>Exception('The callback is not callable.')\<close> of the source; \<open>TypeError\<close> is what Python
  raises when a value that is not callable is called; \<open>UserError\<close> stands for an exception
  raised by user code (a callback, the external solver).
\<close>

datatype error =
    DegenerateInputError
  | EmptyInputError
  | ZeroLengthError
  | InvalidCallbackError
  | NotImplementedError
  | KeyError
  | ZeroDivisionError
  | TypeError
  | UserError

subsection \<open>Geometry kernel\<close>

type_synonym point = "real \<times> real \<times> real"

text \<open>A plane is a base point and a normal vector, as the source unpacks it (\<^verbatim>\<open>base, normal\<close>).\<close>

type_synonym plane = "point \<times> point"

text \<open>
  Modelled from the spec: the vector algebra of \<^verbatim>\<open>compas.geometry\<close> (subtract, cross, dot,
  scale, length), which the sources at hand import and do not define.
\<close>

fun subtract_vectors :: "point \<Rightarrow> point \<Rightarrow> point" where
  "subtract_vectors (a, b, c) (d, e, f) = (a - d, b - e, c - f)"

fun cross_vectors :: "point \<Rightarrow> point \<Rightarrow> point" where
  "cross_vectors (a, b, c) (d, e, f) = (b * f - c * e, c * d - a * f, a * e - b * d)"

fun dot_vectors :: "point \<Rightarrow> point \<Rightarrow> real" where
  "dot_vectors (a, b, c) (d, e, f) = a * d + b * e + c * f"

fun scale_vector :: "point \<Rightarrow> real \<Rightarrow> point" where
  "scale_vector (a, b, c) s = (a * s, b * s, c * s)"

definition length_vector :: "point \<Rightarrow> real" where
  "length_vector v = sqrt (dot_vectors v v)"

text \<open>
  Modelled from the spec: \<^verbatim>\<open>angle_smallest_vectors\<close> (``returns the smaller of the two
  angles between the vectors, in [0, pi]; zero-length input is a defined error
  condition'').
\<close>

definition angle_smallest_vectors :: "point \<Rightarrow> point \<Rightarrow> error + real" where
  "angle_smallest_vectors u v =
     (if length_vector u = 0 \<or> length_vector v = 0 then Inl ZeroLengthError
      else Inr (arccos (dot_vectors u v / (length_vector u * length_vector v))))"

text \<open>
  Modelled from the spec: \<^verbatim>\<open>centroid_points\<close> (``arithmetic mean; fails with
  EmptyInputError on empty input'').
\<close>

definition centroid_points :: "point list \<Rightarrow> error + point" where
  "centroid_points points =
     (if points = [] then Inl EmptyInputError
      else let p = real (length points) in
        Inr (sum_list (map fst points) / p,
             sum_list (map (fst \<circ> snd) points) / p,
             sum_list (map (snd \<circ> snd) points) / p))"

text \<open>
  Modelled from the spec: \<^verbatim>\<open>project_points_plane\<close> (``orthogonal projection; preserves
  input ordering and count''), for a plane given by a base point and a unit normal.
\<close>

fun project_point_plane :: "point \<Rightarrow> plane \<Rightarrow> point" where
  "project_point_plane point (base, normal) =
     subtract_vectors point
       (scale_vector normal (dot_vectors (subtract_vectors point base) normal))"

definition project_points_plane :: "point list \<Rightarrow> plane \<Rightarrow> point list" where
  "project_points_plane points plane = map (\<lambda>point. project_point_plane point plane) points"

text \<open>
  \<^verbatim>\<open>bestfit_plane_from_points\<close> is not defined in the sources at hand and the spec leaves
  its method open (``least-squares or covariance-eigenvector method''): it is a parameter
  \<open>bestfit\<close> of every function that calls it.
\<close>

type_synonym bestfit = "point list \<Rightarrow> error + plane"

text \<open>
  Modelled from the spec: \<^verbatim>\<open>window(seq, 3)\<close> of \<^verbatim>\<open>compas.utilities\<close>, the sliding window
  of width three over a sequence.
\<close>

fun window3 :: "'a list \<Rightarrow> ('a \<times> 'a \<times> 'a) list" where
  "window3 (a # b # c # xs) = (a, b, c) # window3 (b # c # xs)"
| "window3 xs = []"

subsection \<open>The mesh\<close>

text \<open>
  Modelled from the spec: the Mesh Accessor. A mesh holds a dictionary of vertices (key to
  position) and a dictionary of faces (key to the ordered list of its vertex keys), both
  in insertion order. Only the position of a vertex is modelled of its attributes.
\<close>

type_synonym vkey = nat
type_synonym fkey = nat

record mesh =
  vertex :: "(vkey \<times> point) list"
  face :: "(fkey \<times> vkey list) list"

definition vertices :: "mesh \<Rightarrow> vkey list" where
  "vertices m = map fst (vertex m)"

definition faces :: "mesh \<Rightarrow> fkey list" where
  "faces m = map fst (face m)"

definition vertex_coordinates :: "mesh \<Rightarrow> vkey \<Rightarrow> error + point" where
  "vertex_coordinates m key =
     (case map_of (vertex m) key of None \<Rightarrow> Inl KeyError | Some xyz \<Rightarrow> Inr xyz)"

definition face_vertices :: "mesh \<Rightarrow> fkey \<Rightarrow> error + vkey list" where
  "face_vertices m fkey =
     (case map_of (face m) fkey of None \<Rightarrow> Inl KeyError | Some keys \<Rightarrow> Inr keys)"

text \<open>A list comprehension whose body may raise: the first exception ends it.\<close>

fun map_result :: "('a \<Rightarrow> error + 'b) \<Rightarrow> 'a list \<Rightarrow> error + 'b list" where
  "map_result f [] = Inr []"
| "map_result f (x # xs) =
     (case f x of
        Inl e \<Rightarrow> Inl e
      | Inr y \<Rightarrow> (case map_result f xs of Inl e \<Rightarrow> Inl e | Inr ys \<Rightarrow> Inr (y # ys)))"

definition face_coordinates :: "mesh \<Rightarrow> fkey \<Rightarrow> error + point list" where
  "face_coordinates m fkey =
     (case face_vertices m fkey of
        Inl e \<Rightarrow> Inl e
      | Inr keys \<Rightarrow> map_result (vertex_coordinates m) keys)"

text \<open>The faces a vertex is incident to: the faces that list its key.\<close>

definition incident_faces :: "mesh \<Rightarrow> vkey \<Rightarrow> fkey list" where
  "incident_faces m key =
     filter (\<lambda>fkey. case face_vertices m fkey of Inl e \<Rightarrow> False | Inr keys \<Rightarrow> key \<in> set keys)
       (faces m)"

subsection \<open>mesh\_flatness\<close>

text \<open>
  One pass of the inner loop of \<^verbatim>\<open>mesh_flatness\<close> (lines 57 to 65): the angle at the
  corner \<open>b\<close> of the triple \<open>(a, b, c)\<close>.
\<close>

definition corner_angle :: "point \<Rightarrow> point \<times> point \<times> point \<Rightarrow> error + real" where
  "corner_angle normal t =
     (case t of (a, b, c) \<Rightarrow>
        let u = subtract_vectors a b;
            v = subtract_vectors c b;
            n = cross_vectors u v
        in if dot_vectors n normal > 0 then angle_smallest_vectors n normal
           else angle_smallest_vectors n (scale_vector normal (- 1)))"

text \<open>
  The body of the outer loop (lines 54 to 66) for the corner positions of one face: the
  deviation stored under the face's key. \<^verbatim>\<open>sum(angles) / len(angles)\<close> divides by zero
  when there is no angle.
\<close>

definition face_flatness :: "bestfit \<Rightarrow> point list \<Rightarrow> error + real" where
  "face_flatness bestfit points =
     (case bestfit points of
        Inl e \<Rightarrow> Inl e
      | Inr (base, normal) \<Rightarrow>
          (case map_result (corner_angle normal) (window3 (points @ take 2 points)) of
             Inl e \<Rightarrow> Inl e
           | Inr angles \<Rightarrow>
               if length angles = 0 then Inl ZeroDivisionError
               else Inr (sum_list angles / real (length angles))))"

fun flatness_loop ::
  "bestfit \<Rightarrow> mesh \<Rightarrow> (fkey \<rightharpoonup> real) \<Rightarrow> fkey list \<Rightarrow> error + (fkey \<rightharpoonup> real)" where
  "flatness_loop bestfit m dev [] = Inr dev"
| "flatness_loop bestfit m dev (fkey # fkeys) =
     (case face_coordinates m fkey of
        Inl e \<Rightarrow> Inl e
      | Inr points \<Rightarrow>
          (case face_flatness bestfit points of
             Inl e \<Rightarrow> Inl e
           | Inr a \<Rightarrow> flatness_loop bestfit m (dev(fkey \<mapsto> a)) fkeys))"

definition mesh_flatness :: "bestfit \<Rightarrow> mesh \<Rightarrow> error + (fkey \<rightharpoonup> real)" where
  "mesh_flatness bestfit m = flatness_loop bestfit m Map.empty (faces m)"

subsection \<open>The flatness metric in the words of the spec\<close>




subsection \<open>Planar faces\<close>

text \<open>
  The points lie on the plane: the vector from the base point to each of them is
  orthogonal to the normal.
\<close>

fun on_plane :: "plane \<Rightarrow> point list \<Rightarrow> bool" where
  "on_plane (base, normal) points =
     list_all (\<lambda>p. dot_vectors (subtract_vectors p base) normal = 0) points"

text \<open>
  A face is planar when the best-fit plane of its corners, where there is one, passes
  through all of them; a mesh has planar faces when each of its faces is planar.
\<close>

definition face_fits :: "bestfit \<Rightarrow> point list \<Rightarrow> bool" where
  "face_fits bestfit points =
     (case bestfit points of Inl e \<Rightarrow> True | Inr plane \<Rightarrow> on_plane plane points)"

definition faces_fit :: "bestfit \<Rightarrow> mesh \<Rightarrow> bool" where
  "faces_fit bestfit m =
     list_all (\<lambda>fkey. case face_coordinates m fkey of
                         Inl e \<Rightarrow> True
                       | Inr points \<Rightarrow> face_fits bestfit points) (faces m)"

subsection \<open>mesh\_planarize\<close>

text \<open>
  The callback argument is any Python object. The source tests its truth value
  (\<^verbatim>\<open>if callback:\<close>) and whether it is callable (\<^verbatim>\<open>callable(callback)\<close>); the two are
  independent. A callable receives the mesh, the iteration index and \<^verbatim>\<open>callback_args\<close>;
  it may change the mesh in place and it may raise.
\<close>

datatype 'a py_object =
    PyNone
  | PyValue bool
  | PyCallable bool "mesh \<Rightarrow> int \<Rightarrow> 'a \<Rightarrow> (error \<times> mesh) + mesh"

fun truthy :: "'a py_object \<Rightarrow> bool" where
  "truthy PyNone = False"
| "truthy (PyValue b) = b"
| "truthy (PyCallable b f) = b"

fun callable :: "'a py_object \<Rightarrow> bool" where
  "callable (PyCallable b f) = True"
| "callable x = False"

text \<open>
  The state of a call: the mesh, mutated in place, and the log of the callback's
  invocations (the iteration index and the mesh it was handed), oldest first. An
  exception leaves the state as it is at the moment it is raised: a result is
  \<open>Inl (e, s)\<close> for the exception \<open>e\<close> raised in state \<open>s\<close>, or \<open>Inr s\<close> for a normal return.
\<close>

type_synonym pstate = "mesh \<times> (int \<times> mesh) list"

text \<open>The state a call ends in, whether it returns or raises.\<close>

definition final_state :: "(error \<times> 's) + 's \<Rightarrow> 's" where
  "final_state r = (case r of Inl (e, s) \<Rightarrow> s | Inr s \<Rightarrow> s)"

text \<open>Line 113: \<^verbatim>\<open>key_xyz = {key: [] for key in mesh.vertices()}\<close>.\<close>

definition init_key_xyz :: "mesh \<Rightarrow> (vkey \<rightharpoonup> point list)" where
  "init_key_xyz m = map_of (map (\<lambda>key. (key, [])) (vertices m))"

text \<open>Lines 120 to 121: \<^verbatim>\<open>key_xyz[key].append(projections[index])\<close> for every corner.\<close>

fun append_projections ::
  "(vkey \<rightharpoonup> point list) \<Rightarrow> (vkey \<times> point) list \<Rightarrow> error + (vkey \<rightharpoonup> point list)" where
  "append_projections key_xyz [] = Inr key_xyz"
| "append_projections key_xyz ((key, xyz) # rest) =
     (case key_xyz key of
        None \<Rightarrow> Inl KeyError
      | Some ps \<Rightarrow> append_projections (key_xyz(key \<mapsto> ps @ [xyz])) rest)"

text \<open>Lines 115 to 121: the pass over the faces. It reads the mesh and does not change it.\<close>

fun face_pass ::
  "bestfit \<Rightarrow> mesh \<Rightarrow> (vkey \<rightharpoonup> point list) \<Rightarrow> fkey list \<Rightarrow> error + (vkey \<rightharpoonup> point list)" where
  "face_pass bestfit m key_xyz [] = Inr key_xyz"
| "face_pass bestfit m key_xyz (fkey # fkeys) =
     (case face_coordinates m fkey of
        Inl e \<Rightarrow> Inl e
      | Inr points \<Rightarrow>
          (case bestfit points of
             Inl e \<Rightarrow> Inl e
           | Inr plane \<Rightarrow>
               (case face_vertices m fkey of
                  Inl e \<Rightarrow> Inl e
                | Inr keys \<Rightarrow>
                    (case append_projections key_xyz
                            (zip keys (project_points_plane points plane)) of
                       Inl e \<Rightarrow> Inl e
                     | Inr key_xyz' \<Rightarrow> face_pass bestfit m key_xyz' fkeys))))"

text \<open>
  Lines 123 to 130: the pass over the vertices. A fixed vertex is skipped; any other one
  is moved to the centroid of its list in \<^verbatim>\<open>key_xyz\<close>.
\<close>

fun vertex_pass ::
  "vkey set \<Rightarrow> (vkey \<rightharpoonup> point list) \<Rightarrow> mesh \<Rightarrow> vkey list \<Rightarrow> (error \<times> mesh) + mesh" where
  "vertex_pass fixed key_xyz m [] = Inr m"
| "vertex_pass fixed key_xyz m (key # keys) =
     (if key \<in> fixed then vertex_pass fixed key_xyz m keys
      else
        (case key_xyz key of
           None \<Rightarrow> Inl (KeyError, m)
         | Some ps \<Rightarrow>
             (case centroid_points ps of
                Inl e \<Rightarrow> Inl (e, m)
              | Inr xyz \<Rightarrow>
                  vertex_pass fixed key_xyz
                    (m\<lparr>vertex := AList.update key xyz (vertex m)\<rparr>) keys)))"

text \<open>Lines 132 to 133: \<^verbatim>\<open>if callback: callback(mesh, k, callback_args)\<close>.\<close>

fun invoke_callback :: "'a py_object \<Rightarrow> 'a \<Rightarrow> int \<Rightarrow> pstate \<Rightarrow> (error \<times> pstate) + pstate" where
  "invoke_callback callback callback_args k (m, calls) =
     (if truthy callback then
        (case callback of
           PyCallable b f \<Rightarrow>
             (case f m k callback_args of
                Inl (e, m') \<Rightarrow> Inl (e, (m', calls @ [(k, m)]))
              | Inr m' \<Rightarrow> Inr (m', calls @ [(k, m)]))
         | _ \<Rightarrow> Inl (TypeError, (m, calls)))
      else Inr (m, calls))"

text \<open>
  Lines 113 to 130: the two passes of one iteration. The pass over the faces raises
  before the mesh is touched; the pass over the vertices may raise half way.
\<close>

definition update_positions :: "bestfit \<Rightarrow> vkey set \<Rightarrow> mesh \<Rightarrow> (error \<times> mesh) + mesh" where
  "update_positions bestfit fixed m =
     (case face_pass bestfit m (init_key_xyz m) (faces m) of
        Inl e \<Rightarrow> Inl (e, m)
      | Inr key_xyz \<Rightarrow> vertex_pass fixed key_xyz m (vertices m))"

text \<open>Lines 113 to 133: the body of the loop, for the iteration index \<open>k\<close>.\<close>

fun planarize_step ::
  "bestfit \<Rightarrow> vkey set \<Rightarrow> 'a py_object \<Rightarrow> 'a \<Rightarrow> int \<Rightarrow> pstate \<Rightarrow> (error \<times> pstate) + pstate" where
  "planarize_step bestfit fixed callback callback_args k (m, calls) =
     (case update_positions bestfit fixed m of
        Inl (e, m') \<Rightarrow> Inl (e, (m', calls))
      | Inr m' \<Rightarrow> invoke_callback callback callback_args k (m', calls))"

text \<open>Line 111: \<^verbatim>\<open>for k in range(kmax)\<close>.\<close>

fun planarize_loop ::
  "bestfit \<Rightarrow> vkey set \<Rightarrow> 'a py_object \<Rightarrow> 'a \<Rightarrow> pstate \<Rightarrow> int list \<Rightarrow> (error \<times> pstate) + pstate" where
  "planarize_loop bestfit fixed callback callback_args s [] = Inr s"
| "planarize_loop bestfit fixed callback callback_args s (k # ks) =
     (case planarize_step bestfit fixed callback callback_args k s of
        Inl es \<Rightarrow> Inl es
      | Inr s' \<Rightarrow> planarize_loop bestfit fixed callback callback_args s' ks)"

definition range_py :: "int \<Rightarrow> int list" where
  "range_py n = map int [0..<nat n]"

text \<open>
  \<^verbatim>\<open>mesh_planarize(mesh, fixed, kmax, d, callback, callback_args)\<close>. \<^verbatim>\<open>fixed\<close> is \<^verbatim>\<open>None\<close> or
  a list of vertex keys (\<^verbatim>\<open>fixed = fixed or []\<close>, then \<^verbatim>\<open>set(fixed)\<close>).
\<close>

definition mesh_planarize ::
  "bestfit \<Rightarrow> mesh \<Rightarrow> vkey list option \<Rightarrow> int \<Rightarrow> real \<Rightarrow> 'a py_object \<Rightarrow> 'a
     \<Rightarrow> (error \<times> pstate) + pstate" where
  "mesh_planarize bestfit m fixed kmax d callback callback_args =
     (if truthy callback \<and> \<not> callable callback then Inl (InvalidCallbackError, (m, []))
      else planarize_loop bestfit
             (set (case fixed of None \<Rightarrow> [] | Some keys \<Rightarrow> keys))
             callback callback_args (m, []) (range_py kmax))"

text \<open>
  What the log of a run says when the callback is the function \<open>f\<close>: read from the mesh
  \<open>m\<close> the run starts with, every entry \<open>(k, mk)\<close> holds the mesh \<open>mk\<close> that the position
  update of its iteration produced, the callback returned normally on it, and the next
  iteration starts from the mesh the callback left. The value is the mesh after the last
  entry, or \<open>None\<close> when the log is not of this form.
\<close>

fun calls_chain ::
  "bestfit \<Rightarrow> vkey set \<Rightarrow> (mesh \<Rightarrow> int \<Rightarrow> 'a \<Rightarrow> (error \<times> mesh) + mesh) \<Rightarrow> 'a \<Rightarrow> mesh
     \<Rightarrow> (int \<times> mesh) list \<Rightarrow> mesh option" where
  "calls_chain bestfit fixed f callback_args m [] = Some m"
| "calls_chain bestfit fixed f callback_args m ((k, mk) # rest) =
     (if update_positions bestfit fixed m = Inr mk then
        (case f mk k callback_args of
           Inl em \<Rightarrow> None
         | Inr m' \<Rightarrow> calls_chain bestfit fixed f callback_args m' rest)
      else None)"

subsection \<open>mesh\_planarize\_shapeop\<close>

text \<open>
  \<^verbatim>\<open>shapeop.planarize_mesh(mesh, fixed=fixed, kmax=kmax)\<close> belongs to an external binding:
  it is a parameter. It changes the mesh in place and may raise.
\<close>

type_synonym solver = "mesh \<Rightarrow> vkey set \<Rightarrow> int \<Rightarrow> (error \<times> mesh) + mesh"

definition mesh_planarize_shapeop ::
  "solver \<Rightarrow> mesh \<Rightarrow> vkey list option \<Rightarrow> int \<Rightarrow> real \<Rightarrow> 'a py_object \<Rightarrow> 'a
     \<Rightarrow> (error \<times> pstate) + pstate" where
  "mesh_planarize_shapeop planarize_mesh m fixed kmax d callback callback_args =
     (if truthy callback \<and> \<not> callable callback then Inl (InvalidCallbackError, (m, []))
      else
        (case planarize_mesh m (set (case fixed of None \<Rightarrow> [] | Some keys \<Rightarrow> keys)) kmax of
           Inl (e, m') \<Rightarrow> Inl (e, (m', []))
         | Inr m' \<Rightarrow> Inr (m', [])))"

subsection \<open>mesh\_circularize\<close>

text \<open>The body is \<^verbatim>\<open>raise NotImplementedError\<close>.\<close>

definition mesh_circularize ::
  "mesh \<Rightarrow> vkey list option \<Rightarrow> int \<Rightarrow> real \<Rightarrow> 'a py_object \<Rightarrow> 'a
     \<Rightarrow> (error \<times> pstate) + pstate" where
  "mesh_circularize m fixed kmax d callback callback_args = Inl (NotImplementedError, (m, []))"

subsection \<open>Binary64 arithmetic\<close>















subsection \<open>mesh\_planarize over a given kernel\<close>

text \<open>
  Lines 111 to 133 once more, with the two kernel functions whose rounding decides the new
  positions, \<^verbatim>\<open>project_points_plane\<close> and \<^verbatim>\<open>centroid_points\<close>, as parameters next to
  \<^verbatim>\<open>bestfit_plane_from_points\<close>. Everything else is as in \<open>mesh_planarize\<close>, and with the
  exact kernel the two agree (\<open>mesh_planarize_with_exact\<close> below).
\<close>

type_synonym projection = "point list \<Rightarrow> plane \<Rightarrow> point list"
type_synonym centroid = "point list \<Rightarrow> error + point"

fun face_pass_with ::
  "projection \<Rightarrow> bestfit \<Rightarrow> mesh \<Rightarrow> (vkey \<rightharpoonup> point list) \<Rightarrow> fkey list
     \<Rightarrow> error + (vkey \<rightharpoonup> point list)" where
  "face_pass_with project bestfit m key_xyz [] = Inr key_xyz"
| "face_pass_with project bestfit m key_xyz (fkey # fkeys) =
     (case face_coordinates m fkey of
        Inl e \<Rightarrow> Inl e
      | Inr points \<Rightarrow>
          (case bestfit points of
             Inl e \<Rightarrow> Inl e
           | Inr plane \<Rightarrow>
               (case face_vertices m fkey of
                  Inl e \<Rightarrow> Inl e
                | Inr keys \<Rightarrow>
                    (case append_projections key_xyz (zip keys (project points plane)) of
                       Inl e \<Rightarrow> Inl e
                     | Inr key_xyz' \<Rightarrow> face_pass_with project bestfit m key_xyz' fkeys))))"

fun vertex_pass_with ::
  "centroid \<Rightarrow> vkey set \<Rightarrow> (vkey \<rightharpoonup> point list) \<Rightarrow> mesh \<Rightarrow> vkey list
     \<Rightarrow> (error \<times> mesh) + mesh" where
  "vertex_pass_with centroid fixed key_xyz m [] = Inr m"
| "vertex_pass_with centroid fixed key_xyz m (key # keys) =
     (if key \<in> fixed then vertex_pass_with centroid fixed key_xyz m keys
      else
        (case key_xyz key of
           None \<Rightarrow> Inl (KeyError, m)
         | Some ps \<Rightarrow>
             (case centroid ps of
                Inl e \<Rightarrow> Inl (e, m)
              | Inr xyz \<Rightarrow>
                  vertex_pass_with centroid fixed key_xyz
                    (m\<lparr>vertex := AList.update key xyz (vertex m)\<rparr>) keys)))"

definition update_positions_with ::
  "projection \<Rightarrow> centroid \<Rightarrow> bestfit \<Rightarrow> vkey set \<Rightarrow> mesh \<Rightarrow> (error \<times> mesh) + mesh" where
  "update_positions_with project centroid bestfit fixed m =
     (case face_pass_with project bestfit m (init_key_xyz m) (faces m) of
        Inl e \<Rightarrow> Inl (e, m)
      | Inr key_xyz \<Rightarrow> vertex_pass_with centroid fixed key_xyz m (vertices m))"

fun planarize_step_with ::
  "projection \<Rightarrow> centroid \<Rightarrow> bestfit \<Rightarrow> vkey set \<Rightarrow> 'a py_object \<Rightarrow> 'a \<Rightarrow> int \<Rightarrow> pstate
     \<Rightarrow> (error \<times> pstate) + pstate" where
  "planarize_step_with project centroid bestfit fixed callback callback_args k (m, calls) =
     (case update_positions_with project centroid bestfit fixed m of
        Inl (e, m') \<Rightarrow> Inl (e, (m', calls))
      | Inr m' \<Rightarrow> invoke_callback callback callback_args k (m', calls))"

fun planarize_loop_with ::
  "projection \<Rightarrow> centroid \<Rightarrow> bestfit \<Rightarrow> vkey set \<Rightarrow> 'a py_object \<Rightarrow> 'a \<Rightarrow> pstate \<Rightarrow> int list
     \<Rightarrow> (error \<times> pstate) + pstate" where
  "planarize_loop_with project centroid bestfit fixed callback callback_args s [] = Inr s"
| "planarize_loop_with project centroid bestfit fixed callback callback_args s (k # ks) =
     (case planarize_step_with project centroid bestfit fixed callback callback_args k s of
        Inl es \<Rightarrow> Inl es
      | Inr s' \<Rightarrow> planarize_loop_with project centroid bestfit fixed callback callback_args s' ks)"

definition mesh_planarize_with ::
  "projection \<Rightarrow> centroid \<Rightarrow> bestfit \<Rightarrow> mesh \<Rightarrow> vkey list option \<Rightarrow> int \<Rightarrow> real
     \<Rightarrow> 'a py_object \<Rightarrow> 'a \<Rightarrow> (error \<times> pstate) + pstate" where
  "mesh_planarize_with project centroid bestfit m fixed kmax d callback callback_args =
     (if truthy callback \<and> \<not> callable callback then Inl (InvalidCallbackError, (m, []))
      else planarize_loop_with project centroid bestfit
             (set (case fixed of None \<Rightarrow> [] | Some keys \<Rightarrow> keys))
             callback callback_args (m, []) (range_py kmax))"




text \<open>
  The projection leaves the faces where they are: projecting the corners of a face on its
  best-fit plane, where there is one, returns them as they are.
\<close>

definition faces_fixed :: "projection \<Rightarrow> bestfit \<Rightarrow> mesh \<Rightarrow> bool" where
  "faces_fixed project bestfit m =
     list_all (\<lambda>fkey. case face_coordinates m fkey of
                         Inl e \<Rightarrow> True
                       | Inr points \<Rightarrow>
                           (case bestfit points of
                              Inl e \<Rightarrow> True
                            | Inr plane \<Rightarrow> project points plane = points)) (faces m)"

subsection \<open>Example meshes\<close>

text \<open>
  A quadrilateral face over the unit square whose corners are lifted alternately by a
  quarter above and below the plane \<open>z = 0\<close>. Its least-squares plane is \<open>z = 0\<close> through
  the centroid \<open>(1/2, 1/2, 0)\<close>, with unit normal \<open>(0, 0, 1)\<close>.
\<close>

definition saddle_quad :: mesh where
  "saddle_quad =
     \<lparr>vertex = [(0, (0, 0, 1/4)), (1, (1, 0, - 1/4)), (2, (1, 1, 1/4)), (3, (0, 1, - 1/4))],
      face = [(0, [0, 1, 2, 3])]\<rparr>"

text \<open>The planar unit square, one face; its best-fit plane is the same one.\<close>

definition unit_square :: mesh where
  "unit_square =
     \<lparr>vertex = [(0, (0, 0, 0)), (1, (1, 0, 0)), (2, (1, 1, 0)), (3, (0, 1, 0))],
      face = [(0, [0, 1, 2, 3])]\<rparr>"



section \<open>Properties\<close>

subsection \<open>Evaluation on the examples\<close>

lemmas planarize_eval =
  mesh_planarize_def range_py_def update_positions_def init_key_xyz_def faces_def vertices_def
  face_coordinates_def face_vertices_def vertex_coordinates_def project_points_plane_def
  centroid_points_def

lemmas flatness_eval =
  mesh_flatness_def faces_def face_coordinates_def face_vertices_def vertex_coordinates_def
  face_flatness_def corner_angle_def angle_smallest_vectors_def length_vector_def



lemma saddle_quad_two_iterations:
  "mesh_planarize (\<lambda>ps. Inr ((1/2, 1/2, 0), (0, 0, 1))) saddle_quad None 2 1
     (PyCallable True (\<lambda>m k a. Inr m)) () =
   Inr (unit_square, [(0, unit_square), (1, unit_square)])"
  unfolding saddle_quad_def unit_square_def
  by (simp add: planarize_eval numeral_2_eq_2)

subsection \<open>The damping factor\<close>

text \<open>
  Claim C4. Two runs of \<^verbatim>\<open>mesh_planarize\<close> that differ only in the damping factor \<open>d\<close> end
  in the same way: the same exception or normal return, the same final vertex positions
  and the same callback invocations. The factor is never applied.
\<close>

theorem mesh_planarize_damping_unused:
  "mesh_planarize bestfit m fixed kmax d callback callback_args =
   mesh_planarize bestfit m fixed kmax d' callback callback_args"
  by (simp add: mesh_planarize_def)

subsection \<open>No iterations\<close>

text \<open>
  Claim C10. For \<open>kmax \<le> 0\<close> the loop body never runs: once the callback has passed the
  validity check, \<^verbatim>\<open>mesh_planarize\<close> returns normally with the mesh as it was and without
  a callback invocation.
\<close>

theorem mesh_planarize_no_iterations:
  "kmax \<le> 0 \<Longrightarrow>
   mesh_planarize bestfit m fixed kmax d callback callback_args =
     (if truthy callback \<and> \<not> callable callback then Inl (InvalidCallbackError, (m, []))
      else Inr (m, []))"
  by (simp add: mesh_planarize_def range_py_def)

theorem mesh_planarize_no_iterations_witness:
  "(- 3 :: int) \<le> 0 \<and>
   mesh_planarize (\<lambda>ps. Inr ((1/2, 1/2, 0), (0, 0, 1))) saddle_quad None (- 3) 1
     (PyCallable True (\<lambda>m k a. Inr m)) () = Inr (saddle_quad, [])"
  using mesh_planarize_no_iterations [of "- 3" "\<lambda>ps. Inr ((1/2, 1/2, 0), (0, 0, 1))"
      saddle_quad None 1 "PyCallable True (\<lambda>m k a. Inr m)" "()"]
  by simp

subsection \<open>The callback check\<close>

lemma planarize_step_falsy:
  "\<not> truthy callback \<Longrightarrow>
   planarize_step bestfit fixed callback callback_args k s =
   planarize_step bestfit fixed PyNone callback_args k s"
  by (cases s) (simp split: sum.splits)

lemma planarize_loop_falsy:
  assumes "\<not> truthy callback"
  shows "planarize_loop bestfit fixed callback callback_args s ks =
         planarize_loop bestfit fixed PyNone callback_args s ks"
proof (induction ks arbitrary: s)
  case Nil
  show ?case by simp
next
  case (Cons k ks)
  have "planarize_step bestfit fixed callback callback_args k s =
        planarize_step bestfit fixed PyNone callback_args k s"
    by (rule planarize_step_falsy [OF assms])
  with Cons.IH show ?case by (simp split: sum.splits)
qed

text \<open>
  Claim C8, as amended. The check is \<^verbatim>\<open>if callback: if not callable(callback): raise\<close>: a
  callback argument that is truthy and not callable makes \<^verbatim>\<open>mesh_planarize\<close> raise before
  the loop, with the mesh as it was and no invocation made. A falsy argument, callable or
  not, is treated as \<^verbatim>\<open>None\<close> is: the call runs as if no callback had been given.
\<close>

theorem mesh_planarize_invalid_callback:
  "(truthy callback \<and> \<not> callable callback \<longrightarrow>
      mesh_planarize bestfit m fixed kmax d callback callback_args =
        Inl (InvalidCallbackError, (m, []))) \<and>
   (\<not> truthy callback \<longrightarrow>
      mesh_planarize bestfit m fixed kmax d callback callback_args =
      mesh_planarize bestfit m fixed kmax d PyNone callback_args)"
proof (intro conjI impI)
  assume "truthy callback \<and> \<not> callable callback"
  then show "mesh_planarize bestfit m fixed kmax d callback callback_args =
        Inl (InvalidCallbackError, (m, []))"
    by (simp add: mesh_planarize_def)
next
  assume f: "\<not> truthy callback"
  from planarize_loop_falsy [OF f] f
  show "mesh_planarize bestfit m fixed kmax d callback callback_args =
      mesh_planarize bestfit m fixed kmax d PyNone callback_args"
    by (simp add: mesh_planarize_def)
qed

theorem mesh_planarize_invalid_callback_witness:
  "truthy (PyValue True) \<and> \<not> callable (PyValue True) \<and>
   mesh_planarize (\<lambda>ps. Inr ((1/2, 1/2, 0), (0, 0, 1))) saddle_quad None 1 1 (PyValue True) ()
     = Inl (InvalidCallbackError, (saddle_quad, [])) \<and>
   \<not> truthy (PyValue False) \<and>
   mesh_planarize (\<lambda>ps. Inr ((1/2, 1/2, 0), (0, 0, 1))) saddle_quad None 1 1 (PyValue False) ()
     = mesh_planarize (\<lambda>ps. Inr ((1/2, 1/2, 0), (0, 0, 1))) saddle_quad None 1 1 PyNone ()"
  using mesh_planarize_invalid_callback [where callback = "PyValue True" and
      bestfit = "\<lambda>ps. Inr ((1/2, 1/2, 0), (0, 0, 1))" and m = saddle_quad and fixed = None and
      kmax = 1 and d = 1 and callback_args = "()"]
    mesh_planarize_invalid_callback [where callback = "PyValue False" and
      bestfit = "\<lambda>ps. Inr ((1/2, 1/2, 0), (0, 0, 1))" and m = saddle_quad and fixed = None and
      kmax = 1 and d = 1 and callback_args = "()"]
  by simp

text \<open>
  A value that is not \<^verbatim>\<open>None\<close>, not callable and falsy (\<^verbatim>\<open>0\<close>, \<^verbatim>\<open>''\<close>, \<^verbatim>\<open>[]\<close>) passes the
  check: the call runs its iteration, moves the vertices and returns normally.
\<close>

theorem mesh_planarize_falsy_callback_accepted:
  "mesh_planarize (\<lambda>ps. Inr ((1/2, 1/2, 0), (0, 0, 1))) saddle_quad None 1 1 (PyValue False) ()
     = Inr (unit_square, [])"
  by (simp add: saddle_quad_def unit_square_def planarize_eval)

subsection \<open>The external solver\<close>

text \<open>
  Claim C9. With a callable callback, \<^verbatim>\<open>mesh_planarize_shapeop\<close> ends as the external
  solver does on the mesh, the set of fixed keys and \<open>kmax\<close>; the callback is never invoked
  (the log of the final state is empty), and the result is the same for any other damping
  factor, callable callback and callback arguments.
\<close>

theorem mesh_planarize_shapeop_ignores_callback:
  "callable callback \<Longrightarrow> callable callback' \<Longrightarrow>
   mesh_planarize_shapeop planarize_mesh m fixed kmax d callback callback_args =
     (case planarize_mesh m (set (case fixed of None \<Rightarrow> [] | Some keys \<Rightarrow> keys)) kmax of
        Inl (e, m') \<Rightarrow> Inl (e, (m', []))
      | Inr m' \<Rightarrow> Inr (m', []))
   \<and> snd (final_state
         (mesh_planarize_shapeop planarize_mesh m fixed kmax d callback callback_args)) = []
   \<and> mesh_planarize_shapeop planarize_mesh m fixed kmax d callback callback_args =
     mesh_planarize_shapeop planarize_mesh m fixed kmax d' callback' callback_args'"
  by (simp add: mesh_planarize_shapeop_def final_state_def split: sum.splits)

text \<open>
  An instance: a solver that flattens every mesh to the unit square, a callback that would
  raise if it were invoked, and another one that would not.
\<close>

theorem mesh_planarize_shapeop_ignores_callback_witness:
  "callable (PyCallable True (\<lambda>m k a. Inl (UserError, m))) \<and>
   callable (PyCallable True (\<lambda>m k a. Inr m)) \<and>
   mesh_planarize_shapeop (\<lambda>m fixed kmax. Inr unit_square) saddle_quad (Some [0]) 5 (1/10)
     (PyCallable True (\<lambda>m k a. Inl (UserError, m))) () = Inr (unit_square, []) \<and>
   mesh_planarize_shapeop (\<lambda>m fixed kmax. Inr unit_square) saddle_quad (Some [0]) 5 (1/10)
     (PyCallable True (\<lambda>m k a. Inl (UserError, m))) () =
   mesh_planarize_shapeop (\<lambda>m fixed kmax. Inr unit_square) saddle_quad (Some [0]) 5 1
     (PyCallable True (\<lambda>m k a. Inr m)) ()"
  using mesh_planarize_shapeop_ignores_callback
    [of "PyCallable True (\<lambda>m k a. Inl (UserError, m))" "PyCallable True (\<lambda>m k a. Inr m)"
      "\<lambda>m fixed kmax. Inr unit_square" saddle_quad "Some [0]" 5 "1/10" "()" 1 "()"]
  by auto

subsection \<open>Fixed vertices\<close>

lemma vertex_pass_fixed:
  "key \<in> fixed \<Longrightarrow>
   map_of (vertex (final_state (vertex_pass fixed key_xyz m keys))) key = map_of (vertex m) key"
proof (induction keys arbitrary: m)
  case Nil
  then show ?case by (simp add: final_state_def)
next
  case (Cons k keys)
  show ?case
  proof (cases "k \<in> fixed")
    case True
    with Cons show ?thesis by simp
  next
    case False
    with Cons.prems have ne: "k \<noteq> key" by auto
    show ?thesis
    proof (cases "key_xyz k")
      case None
      with False show ?thesis by (simp add: final_state_def)
    next
      case (Some ps)
      show ?thesis
      proof (cases "centroid_points ps")
        case (Inl e)
        with False Some show ?thesis by (simp add: final_state_def)
      next
        case (Inr xyz)
        have "map_of (vertex (final_state (vertex_pass fixed key_xyz
                 (m\<lparr>vertex := AList.update k xyz (vertex m)\<rparr>) keys))) key
              = map_of (vertex (m\<lparr>vertex := AList.update k xyz (vertex m)\<rparr>)) key"
          using Cons.IH [OF Cons.prems] .
        with False Some Inr ne show ?thesis by (simp add: update_conv')
      qed
    qed
  qed
qed

lemma update_positions_fixed:
  "key \<in> fixed \<Longrightarrow>
   map_of (vertex (final_state (update_positions bestfit fixed m))) key = map_of (vertex m) key"
  by (cases "face_pass bestfit m (init_key_xyz m) (faces m)")
     (simp_all add: update_positions_def vertex_pass_fixed, simp add: final_state_def)

lemma invoke_callback_fixed:
  assumes "\<forall>b f m k. callback = PyCallable b f \<longrightarrow>
     map_of (vertex (final_state (f m k callback_args))) key = map_of (vertex m) key"
  shows "map_of (vertex (fst (final_state (invoke_callback callback callback_args k (m, calls))))) key
     = map_of (vertex m) key"
proof (cases callback)
  case PyNone
  then show ?thesis by (simp add: final_state_def)
next
  case (PyValue b)
  then show ?thesis by (simp add: final_state_def)
next
  case (PyCallable b f)
  from assms PyCallable
  have "map_of (vertex (final_state (f m k callback_args))) key = map_of (vertex m) key"
    by blast
  with PyCallable show ?thesis
    by (cases "f m k callback_args") (auto simp: final_state_def)
qed

lemma planarize_step_fixed:
  assumes "key \<in> fixed"
    and "\<forall>b f m k. callback = PyCallable b f \<longrightarrow>
     map_of (vertex (final_state (f m k callback_args))) key = map_of (vertex m) key"
  shows "map_of (vertex (fst (final_state
            (planarize_step bestfit fixed callback callback_args k s)))) key
     = map_of (vertex (fst s)) key"
proof (cases s)
  case (Pair m calls)
  show ?thesis
  proof (cases "update_positions bestfit fixed m")
    case (Inl em)
    with update_positions_fixed [OF assms(1), of bestfit m] Pair show ?thesis
      by (cases em) (simp add: final_state_def)
  next
    case (Inr m')
    with update_positions_fixed [OF assms(1), of bestfit m]
    have "map_of (vertex m') key = map_of (vertex m) key" by (simp add: final_state_def)
    with invoke_callback_fixed [of callback callback_args key k m' calls, OF assms(2)] Pair Inr
    show ?thesis by simp
  qed
qed

lemma planarize_loop_fixed:
  assumes "key \<in> fixed"
    and "\<forall>b f m k. callback = PyCallable b f \<longrightarrow>
     map_of (vertex (final_state (f m k callback_args))) key = map_of (vertex m) key"
  shows "map_of (vertex (fst (final_state
            (planarize_loop bestfit fixed callback callback_args s ks)))) key
     = map_of (vertex (fst s)) key"
proof (induction ks arbitrary: s)
  case Nil
  show ?case by (simp add: final_state_def)
next
  case (Cons k ks)
  show ?case
  proof (cases "planarize_step bestfit fixed callback callback_args k s")
    case (Inl es)
    with planarize_step_fixed [of key fixed callback callback_args bestfit k s, OF assms]
    show ?thesis by (simp add: final_state_def)
  next
    case (Inr s')
    with planarize_step_fixed [of key fixed callback callback_args bestfit k s, OF assms]
    have "map_of (vertex (fst s')) key = map_of (vertex (fst s)) key"
      by (simp add: final_state_def)
    with Cons.IH [of s'] Inr show ?thesis by simp
  qed
qed

text \<open>
  Claim C2. For every mesh, list of fixed keys and \<open>kmax\<close>, a key of the fixed list has the
  same position (or is as absent from the mesh) in the state \<^verbatim>\<open>mesh_planarize\<close> ends in as
  before the call, whether the call returns or raises. The iterations never write to a
  fixed vertex; the callback is user code, and is taken not to move that vertex itself.
\<close>

theorem mesh_planarize_fixed_invariant:
  assumes "key \<in> set (case fixed of None \<Rightarrow> [] | Some keys \<Rightarrow> keys)"
    and "\<forall>b f m k. callback = PyCallable b f \<longrightarrow>
     map_of (vertex (final_state (f m k callback_args))) key = map_of (vertex m) key"
  shows "vertex_coordinates
           (fst (final_state (mesh_planarize bestfit m fixed kmax d callback callback_args))) key
         = vertex_coordinates m key"
proof (cases "truthy callback \<and> \<not> callable callback")
  case True
  then show ?thesis by (simp add: mesh_planarize_def final_state_def)
next
  case False
  then have "mesh_planarize bestfit m fixed kmax d callback callback_args =
      planarize_loop bestfit (set (case fixed of None \<Rightarrow> [] | Some keys \<Rightarrow> keys))
        callback callback_args (m, []) (range_py kmax)"
    unfolding mesh_planarize_def by (simp only: if_False)
  with planarize_loop_fixed
    [of key _ callback callback_args bestfit "(m, [])" "range_py kmax", OF assms]
  show ?thesis by (simp only: fst_conv vertex_coordinates_def)
qed

text \<open>
  An instance: the saddle with vertex 0 fixed. One iteration moves the three other corners
  onto the plane \<open>z = 0\<close> and leaves vertex 0 a quarter above it.
\<close>

lemma saddle_quad_fixed_corner:
  "mesh_planarize (\<lambda>ps. Inr ((1/2, 1/2, 0), (0, 0, 1))) saddle_quad (Some [0]) 1 1
     (PyNone :: unit py_object) () =
   Inr (\<lparr>vertex = [(0, (0, 0, 1/4)), (1, (1, 0, 0)), (2, (1, 1, 0)), (3, (0, 1, 0))],
         face = [(0, [0, 1, 2, 3])]\<rparr>, [])"
  by (simp add: saddle_quad_def planarize_eval)

theorem mesh_planarize_fixed_invariant_witness:
  "(0::nat) \<in> set (case Some [0] of None \<Rightarrow> [] | Some keys \<Rightarrow> keys) \<and>
   vertex_coordinates
     (fst (final_state (mesh_planarize (\<lambda>ps. Inr ((1/2, 1/2, 0), (0, 0, 1))) saddle_quad
        (Some [0]) 1 1 (PyNone :: unit py_object) ()))) 0 = Inr (0, 0, 1/4) \<and>
   vertex_coordinates
     (fst (final_state (mesh_planarize (\<lambda>ps. Inr ((1/2, 1/2, 0), (0, 0, 1))) saddle_quad
        (Some [0]) 1 1 (PyNone :: unit py_object) ()))) 1 = Inr (1, 0, 0)"
proof -
  have a: "vertex_coordinates saddle_quad 0 = Inr (0, 0, 1/4)"
    by (simp add: saddle_quad_def vertex_coordinates_def)
  have b: "vertex_coordinates
     (fst (final_state (mesh_planarize (\<lambda>ps. Inr ((1/2, 1/2, 0), (0, 0, 1))) saddle_quad
        (Some [0]) 1 1 (PyNone :: unit py_object) ()))) 1 = Inr (1, 0, 0)"
    by (simp add: saddle_quad_fixed_corner final_state_def vertex_coordinates_def)
  from mesh_planarize_fixed_invariant [of 0 "Some [0]" "PyNone :: unit py_object" "()"
      "\<lambda>ps. Inr ((1/2, 1/2, 0), (0, 0, 1))" saddle_quad 1 1] a b
  show ?thesis by simp
qed

subsection \<open>Callback invocations\<close>

lemma planarize_loop_calls:
  "planarize_loop bestfit fixed (PyCallable True f) callback_args (m, calls) ks = Inr (m', calls')
   \<Longrightarrow> \<exists>new. calls' = calls @ new \<and> map fst new = ks \<and>
         calls_chain bestfit fixed f callback_args m new = Some m'"
proof (induction ks arbitrary: m calls)
  case Nil
  then show ?case by simp
next
  case (Cons k ks)
  from Cons.prems obtain s1 where
    st: "planarize_step bestfit fixed (PyCallable True f) callback_args k (m, calls) = Inr s1" and
    lp: "planarize_loop bestfit fixed (PyCallable True f) callback_args s1 ks = Inr (m', calls')"
    by (cases "planarize_step bestfit fixed (PyCallable True f) callback_args k (m, calls)")
       simp_all
  from st obtain m1 where
    up: "update_positions bestfit fixed m = Inr m1" and
    iv: "invoke_callback (PyCallable True f) callback_args k (m1, calls) = Inr s1"
    by (cases "update_positions bestfit fixed m") (simp_all split: prod.splits)
  from iv obtain m2 where
    cb: "f m1 k callback_args = Inr m2" and s1: "s1 = (m2, calls @ [(k, m1)])"
    by (cases "f m1 k callback_args") (auto split: prod.splits)
  from lp s1 have rest: "planarize_loop bestfit fixed (PyCallable True f) callback_args
             (m2, calls @ [(k, m1)]) ks = Inr (m', calls')" by simp
  from Cons.IH [OF rest] obtain new where
    new: "calls' = (calls @ [(k, m1)]) @ new" "map fst new = ks"
      "calls_chain bestfit fixed f callback_args m2 new = Some m'"
    by blast
  have a: "calls' = calls @ ((k, m1) # new)" using new(1) by simp
  have b: "map fst ((k, m1) # new) = k # ks" using new(2) by simp
  have c: "calls_chain bestfit fixed f callback_args m ((k, m1) # new) = Some m'"
    using up cb new(3) by simp
  show ?case by (rule exI [of _ "(k, m1) # new"]) (simp only: a b c simp_thms)
qed

lemma planarize_step_calls:
  "(\<exists>e m'. planarize_step bestfit fixed (PyCallable True f) callback_args k (m, calls)
        = Inl (e, (m', calls))) \<or>
   (\<exists>e m1 m'. planarize_step bestfit fixed (PyCallable True f) callback_args k (m, calls)
        = Inl (e, (m', calls @ [(k, m1)]))) \<or>
   (\<exists>m1 m'. planarize_step bestfit fixed (PyCallable True f) callback_args k (m, calls)
        = Inr (m', calls @ [(k, m1)]))"
proof (cases "update_positions bestfit fixed m")
  case (Inl em)
  then show ?thesis by (cases em) simp
next
  case (Inr m1)
  then show ?thesis by (cases "f m1 k callback_args") auto
qed

lemma planarize_loop_calls_prefix:
  "\<exists>new. snd (final_state (planarize_loop bestfit fixed (PyCallable True f) callback_args
              (m, calls) ks)) = calls @ new \<and>
         map fst new = take (length new) ks"
proof (induction ks arbitrary: m calls)
  case Nil
  show ?case by (simp add: final_state_def)
next
  case (Cons k ks)
  from planarize_step_calls [of bestfit fixed f callback_args k m calls]
  consider
    (a) e m' where "planarize_step bestfit fixed (PyCallable True f) callback_args k (m, calls)
        = Inl (e, (m', calls))"
  | (b) e m1 m' where "planarize_step bestfit fixed (PyCallable True f) callback_args k (m, calls)
        = Inl (e, (m', calls @ [(k, m1)]))"
  | (c) m1 m' where "planarize_step bestfit fixed (PyCallable True f) callback_args k (m, calls)
        = Inr (m', calls @ [(k, m1)])"
    by blast
  then show ?case
  proof cases
    case a
    then show ?thesis by (simp add: final_state_def)
  next
    case b
    then have "snd (final_state (planarize_loop bestfit fixed (PyCallable True f) callback_args
              (m, calls) (k # ks))) = calls @ [(k, m1)]"
      by (simp add: final_state_def)
    moreover have "map fst [(k, m1)] = take (length [(k, m1)]) (k # ks)" by simp
    ultimately show ?thesis by (intro exI [of _ "[(k, m1)]"] conjI)
  next
    case c
    from Cons.IH [of m' "calls @ [(k, m1)]"] obtain new where
      n1: "snd (final_state (planarize_loop bestfit fixed (PyCallable True f) callback_args
              (m', calls @ [(k, m1)]) ks)) = (calls @ [(k, m1)]) @ new" and
      n2: "map fst new = take (length new) ks" by blast
    from c n1 have "snd (final_state (planarize_loop bestfit fixed (PyCallable True f)
              callback_args (m, calls) (k # ks))) = calls @ ((k, m1) # new)"
      by simp
    moreover from n2 have "map fst ((k, m1) # new) = take (length ((k, m1) # new)) (k # ks)"
      by simp
    ultimately show ?thesis by (intro exI [of _ "(k, m1) # new"] conjI)
  qed
qed

lemma mesh_planarize_calls_prefix:
  "\<exists>n\<le>nat kmax. map fst (snd (final_state
      (mesh_planarize bestfit m fixed kmax d (PyCallable True f) callback_args)))
     = map int [0..<n]"
proof -
  have eq: "mesh_planarize bestfit m fixed kmax d (PyCallable True f) callback_args =
      planarize_loop bestfit (set (case fixed of None \<Rightarrow> [] | Some keys \<Rightarrow> keys))
      (PyCallable True f) callback_args (m, []) (range_py kmax)"
    unfolding mesh_planarize_def by (simp only: truthy.simps callable.simps simp_thms if_False)
  from planarize_loop_calls_prefix [of bestfit _ f callback_args m "[]" "range_py kmax"]
  obtain new where
    n1: "snd (final_state (planarize_loop bestfit
          (set (case fixed of None \<Rightarrow> [] | Some keys \<Rightarrow> keys))
          (PyCallable True f) callback_args (m, []) (range_py kmax))) = [] @ new" and
    n2: "map fst new = take (length new) (range_py kmax)" by blast
  from n2 have "length (map fst new) = length (take (length new) (range_py kmax))" by simp
  then have le: "length new \<le> nat kmax" by (simp add: range_py_def)
  from n2 have "map fst new = map int [0..<length new]"
    using le by (simp add: range_py_def take_map take_upt)
  with n1 le eq show ?thesis by auto
qed

lemma mesh_planarize_calls_complete:
  assumes "mesh_planarize bestfit m fixed kmax d (PyCallable True f) callback_args
             = Inr (m', calls)"
  shows "map fst calls = map int [0..<nat kmax] \<and> length calls = nat kmax \<and>
         calls_chain bestfit (set (case fixed of None \<Rightarrow> [] | Some keys \<Rightarrow> keys))
           f callback_args m calls = Some m'"
proof -
  from assms
  have "planarize_loop bestfit (set (case fixed of None \<Rightarrow> [] | Some keys \<Rightarrow> keys))
      (PyCallable True f) callback_args (m, []) (range_py kmax) = Inr (m', calls)"
    unfolding mesh_planarize_def by (simp only: truthy.simps callable.simps simp_thms if_False)
  from planarize_loop_calls [OF this] obtain new where
    "calls = [] @ new" "map fst new = range_py kmax"
    "calls_chain bestfit (set (case fixed of None \<Rightarrow> [] | Some keys \<Rightarrow> keys))
           f callback_args m new = Some m'" by blast
  then have a: "map fst calls = map int [0..<nat kmax]" and
    c: "calls_chain bestfit (set (case fixed of None \<Rightarrow> [] | Some keys \<Rightarrow> keys))
           f callback_args m calls = Some m'"
    by (simp_all add: range_py_def)
  from a have "length (map fst calls) = length (map int [0..<nat kmax])" by simp
  then have "length calls = nat kmax" by simp
  with a c show ?thesis by (simp only: simp_thms)
qed

text \<open>
  Claim C7, as amended. Let \<^verbatim>\<open>mesh_planarize\<close> be given a callback that is callable (and
  truthy, as every function is). In whatever way the call ends, the callback has been
  invoked with the iteration indices \<open>0, 1, \<dots>, n - 1\<close> in this order, each once, for some
  \<open>n\<close> that is at most \<open>kmax\<close>. When the call returns normally, \<open>n\<close> is \<open>kmax\<close> (0 for a negative
  \<open>kmax\<close>), each invocation received the mesh as the position update of its iteration left
  it, and the next iteration started from the mesh the callback returned.
\<close>

theorem mesh_planarize_callback_log:
  "(\<exists>n\<le>nat kmax. map fst (snd (final_state
       (mesh_planarize bestfit m fixed kmax d (PyCallable True f) callback_args)))
     = map int [0..<n]) \<and>
   (\<forall>m' calls.
      mesh_planarize bestfit m fixed kmax d (PyCallable True f) callback_args = Inr (m', calls)
      \<longrightarrow> map fst calls = map int [0..<nat kmax] \<and> length calls = nat kmax \<and>
          calls_chain bestfit (set (case fixed of None \<Rightarrow> [] | Some keys \<Rightarrow> keys))
            f callback_args m calls = Some m')"
proof (intro conjI allI impI)
  show "\<exists>n\<le>nat kmax. map fst (snd (final_state
       (mesh_planarize bestfit m fixed kmax d (PyCallable True f) callback_args)))
     = map int [0..<n]"
    by (rule mesh_planarize_calls_prefix)
next
  fix m' calls
  assume r: "mesh_planarize bestfit m fixed kmax d (PyCallable True f) callback_args
               = Inr (m', calls)"
  from mesh_planarize_calls_complete [OF r]
  show "map fst calls = map int [0..<nat kmax]" and "length calls = nat kmax" and
    "calls_chain bestfit (set (case fixed of None \<Rightarrow> [] | Some keys \<Rightarrow> keys))
            f callback_args m calls = Some m'"
    by (simp_all only: simp_thms)
qed

text \<open>An instance: two iterations on the saddle, with a callback that only looks.\<close>

theorem mesh_planarize_callback_log_witness:
  "mesh_planarize (\<lambda>ps. Inr ((1/2, 1/2, 0), (0, 0, 1))) saddle_quad None 2 1
     (PyCallable True (\<lambda>m k a. Inr m)) () =
     Inr (unit_square, [(0, unit_square), (1, unit_square)]) \<and>
   map fst [(0, unit_square), (1, unit_square)] = map int [0..<nat 2] \<and>
   length [(0::int, unit_square), (1, unit_square)] = nat 2 \<and>
   calls_chain (\<lambda>ps. Inr ((1/2, 1/2, 0), (0, 0, 1)))
     (set (case None of None \<Rightarrow> [] | Some keys \<Rightarrow> keys)) (\<lambda>m k a. Inr m) ()
     saddle_quad [(0, unit_square), (1, unit_square)] = Some unit_square"
proof -
  note t = mesh_planarize_callback_log [where kmax = 2 and
      bestfit = "\<lambda>ps. Inr ((1/2, 1/2, 0), (0, 0, 1))" and m = saddle_quad and fixed = None and
      d = 1 and f = "\<lambda>m k a. Inr m" and callback_args = "()"]
  from t have "\<forall>m' calls.
      mesh_planarize (\<lambda>ps. Inr ((1/2, 1/2, 0), (0, 0, 1))) saddle_quad None 2 1
        (PyCallable True (\<lambda>m k a. Inr m)) () = Inr (m', calls)
      \<longrightarrow> map fst calls = map int [0..<nat 2] \<and> length calls = nat 2 \<and>
          calls_chain (\<lambda>ps. Inr ((1/2, 1/2, 0), (0, 0, 1)))
            (set (case None of None \<Rightarrow> [] | Some keys \<Rightarrow> keys)) (\<lambda>m k a. Inr m) ()
            saddle_quad calls = Some m'"
    by (rule conjunct2)
  with saddle_quad_two_iterations
  have "map fst [(0, unit_square), (1, unit_square)] = map int [0..<nat 2] \<and>
   length [(0::int, unit_square), (1, unit_square)] = nat 2 \<and>
   calls_chain (\<lambda>ps. Inr ((1/2, 1/2, 0), (0, 0, 1)))
     (set (case None of None \<Rightarrow> [] | Some keys \<Rightarrow> keys)) (\<lambda>m k a. Inr m) ()
     saddle_quad [(0, unit_square), (1, unit_square)] = Some unit_square"
    by blast
  with saddle_quad_two_iterations show ?thesis by (simp only: simp_thms)
qed

text \<open>
  An exception ends the call before the callback is reached. The three corners of this
  face are collinear, the best-fit plane is undefined and \<^verbatim>\<open>bestfit_plane_from_points\<close>
  raises: with \<open>kmax = 1\<close> and a callable callback, the callback is not invoked at all.
\<close>

theorem mesh_planarize_callback_abort:
  "mesh_planarize (\<lambda>ps. Inl DegenerateInputError)
     \<lparr>vertex = [(0, (0, 0, 0)), (1, (1, 0, 0)), (2, (2, 0, 0))], face = [(0, [0, 1, 2])]\<rparr>
     None 1 1 (PyCallable True (\<lambda>m k a. Inr m)) () =
   Inl (DegenerateInputError,
     (\<lparr>vertex = [(0, (0, 0, 0)), (1, (1, 0, 0)), (2, (2, 0, 0))], face = [(0, [0, 1, 2])]\<rparr>,
      []))"
  by (simp add: planarize_eval)

subsection \<open>A vertex without faces\<close>

lemma append_projections_other:
  assumes "append_projections key_xyz kps = Inr key_xyz'" and "key \<notin> fst ` set kps"
  shows "key_xyz' key = key_xyz key"
  using assms
proof (induction kps arbitrary: key_xyz)
  case Nil
  then show ?case by simp
next
  case (Cons kp kps)
  obtain k xyz where kp: "kp = (k, xyz)" by (cases kp)
  from Cons.prems(1) kp obtain ps where
    ps: "key_xyz k = Some ps" and
    rest: "append_projections (key_xyz(k \<mapsto> ps @ [xyz])) kps = Inr key_xyz'"
    by (cases "key_xyz k") simp_all
  from Cons.prems(2) kp have ne: "key \<noteq> k" and tl: "key \<notin> fst ` set kps" by auto
  from Cons.IH [OF rest tl] ne show ?case by simp
qed

lemma face_pass_other:
  assumes "face_pass bestfit m key_xyz fkeys = Inr key_xyz'"
    and "\<forall>fkey\<in>set fkeys. \<forall>keys. face_vertices m fkey = Inr keys \<longrightarrow> key \<notin> set keys"
  shows "key_xyz' key = key_xyz key"
  using assms
proof (induction fkeys arbitrary: key_xyz)
  case Nil
  then show ?case by simp
next
  case (Cons fkey fkeys)
  from Cons.prems(1) obtain points where
    pts: "face_coordinates m fkey = Inr points"
    by (cases "face_coordinates m fkey") simp_all
  from Cons.prems(1) pts obtain plane where
    pl: "bestfit points = Inr plane"
    by (cases "bestfit points") simp_all
  from Cons.prems(1) pts pl obtain keys where
    ks: "face_vertices m fkey = Inr keys"
    by (cases "face_vertices m fkey") simp_all
  from Cons.prems(1) pts pl ks obtain key_xyz1 where
    ap: "append_projections key_xyz (zip keys (project_points_plane points plane)) = Inr key_xyz1"
    and rest: "face_pass bestfit m key_xyz1 fkeys = Inr key_xyz'"
    by (cases "append_projections key_xyz (zip keys (project_points_plane points plane))")
       simp_all
  from Cons.prems(2) ks have "key \<notin> set keys" by simp
  then have "key \<notin> fst ` set (zip keys (project_points_plane points plane))"
    by (auto dest: set_zip_leftD)
  from append_projections_other [OF ap this] have 1: "key_xyz1 key = key_xyz key" .
  from Cons.prems(2) have
    "\<forall>fkey\<in>set fkeys. \<forall>keys. face_vertices m fkey = Inr keys \<longrightarrow> key \<notin> set keys" by simp
  from Cons.IH [OF rest this] 1 show ?case by simp
qed

lemma init_key_xyz_vertex:
  "key \<in> set (vertices m) \<Longrightarrow> init_key_xyz m key = Some []"
  by (simp add: init_key_xyz_def map_of_map_restrict)

lemma vertex_pass_empty_list:
  assumes "key \<in> set keys" and "key \<notin> fixed" and "key_xyz key = Some []"
  shows "\<exists>e m'. vertex_pass fixed key_xyz m keys = Inl (e, m')"
  using assms(1)
proof (induction keys arbitrary: m)
  case Nil
  then show ?case by simp
next
  case (Cons k keys)
  show ?case
  proof (cases "k = key")
    case True
    with assms(2,3) show ?thesis by (simp add: centroid_points_def)
  next
    case False
    with Cons.prems have tl: "key \<in> set keys" by simp
    show ?thesis
    proof (cases "k \<in> fixed")
      case True
      with Cons.IH [OF tl] show ?thesis by simp
    next
      case nf: False
      show ?thesis
      proof (cases "key_xyz k")
        case None
        with nf show ?thesis by simp
      next
        case (Some ps)
        show ?thesis
        proof (cases "centroid_points ps")
          case (Inl e)
          with nf Some show ?thesis by simp
        next
          case (Inr xyz)
          with nf Some Cons.IH [OF tl, of "m\<lparr>vertex := AList.update k xyz (vertex m)\<rparr>"]
          show ?thesis by simp
        qed
      qed
    qed
  qed
qed

lemma update_positions_isolated:
  assumes "key \<in> set (vertices m)" and "key \<notin> fixed"
    and "incident_faces m key = []"
  shows "\<exists>e m'. update_positions bestfit fixed m = Inl (e, m')"
proof (cases "face_pass bestfit m (init_key_xyz m) (faces m)")
  case (Inl e)
  then show ?thesis by (simp add: update_positions_def)
next
  case (Inr key_xyz)
  from assms(3)
  have "\<forall>fkey\<in>set (faces m). \<forall>keys. face_vertices m fkey = Inr keys \<longrightarrow> key \<notin> set keys"
    by (auto simp: incident_faces_def filter_empty_conv)
  from face_pass_other [OF Inr this] init_key_xyz_vertex [OF assms(1)]
  have "key_xyz key = Some []" by simp
  from vertex_pass_empty_list [of key "vertices m" fixed key_xyz m, OF assms(1,2) this] Inr
  show ?thesis by (simp add: update_positions_def)
qed

text \<open>
  Claim C1 does not hold of the code. The dictionary \<^verbatim>\<open>key_xyz\<close> starts with an empty list
  for every vertex, and the pass over the vertices calls \<^verbatim>\<open>centroid_points\<close> on the list of
  every vertex that is not fixed, without looking whether it is empty. So whenever the
  mesh has a vertex that is incident to no face and is not fixed, a call with \<open>kmax \<ge> 1\<close>
  does not return: it raises in its first iteration, in the pass over the faces or, at
  the latest, when the pass over the vertices reaches that vertex.
\<close>

theorem mesh_planarize_isolated_vertex_raises:
  assumes "key \<in> set (vertices m)"
    and "key \<notin> set (case fixed of None \<Rightarrow> [] | Some keys \<Rightarrow> keys)"
    and "incident_faces m key = []"
    and "1 \<le> kmax"
  shows "\<exists>e s. mesh_planarize bestfit m fixed kmax d callback callback_args = Inl (e, s)"
proof (cases "truthy callback \<and> \<not> callable callback")
  case True
  then show ?thesis by (simp add: mesh_planarize_def)
next
  case False
  from assms(4) have "nat kmax = Suc (nat kmax - 1)" by simp
  then have "[0..<nat kmax] = 0 # [Suc 0..<nat kmax]"
    by (metis upt_conv_Cons zero_less_Suc)
  then have r: "range_py kmax = 0 # map int [Suc 0..<nat kmax]" by (simp add: range_py_def)
  from update_positions_isolated [OF assms(1,2,3), of bestfit] obtain e m' where
    "update_positions bestfit (set (case fixed of None \<Rightarrow> [] | Some keys \<Rightarrow> keys)) m
       = Inl (e, m')"
    by blast
  then have "planarize_loop bestfit (set (case fixed of None \<Rightarrow> [] | Some keys \<Rightarrow> keys))
      callback callback_args (m, []) (range_py kmax) = Inl (e, (m', []))"
    unfolding r by simp
  with False show ?thesis unfolding mesh_planarize_def by (simp only: if_False) blast
qed

text \<open>
  An instance: a triangle and a fourth vertex, 3, that belongs to no face. The three
  corners of the triangle are handled, then \<^verbatim>\<open>centroid_points([])\<close> raises on vertex 3.
\<close>

theorem mesh_planarize_isolated_vertex_raises_witness:
  "(3::nat) \<in> set (vertices
      \<lparr>vertex = [(0, (0, 0, 0)), (1, (1, 0, 0)), (2, (0, 1, 0)), (3, (5, 5, 5))],
       face = [(0, [0, 1, 2])]\<rparr>) \<and>
   (3::nat) \<notin> set (case None of None \<Rightarrow> [] | Some keys \<Rightarrow> keys) \<and>
   incident_faces
      \<lparr>vertex = [(0, (0, 0, 0)), (1, (1, 0, 0)), (2, (0, 1, 0)), (3, (5, 5, 5))],
       face = [(0, [0, 1, 2])]\<rparr> 3 = [] \<and>
   (1::int) \<le> 1 \<and>
   mesh_planarize (\<lambda>ps. Inr ((1/3, 1/3, 0), (0, 0, 1)))
     \<lparr>vertex = [(0, (0, 0, 0)), (1, (1, 0, 0)), (2, (0, 1, 0)), (3, (5, 5, 5))],
      face = [(0, [0, 1, 2])]\<rparr>
     None 1 1 (PyNone :: unit py_object) () =
   Inl (EmptyInputError,
     (\<lparr>vertex = [(0, (0, 0, 0)), (1, (1, 0, 0)), (2, (0, 1, 0)), (3, (5, 5, 5))],
       face = [(0, [0, 1, 2])]\<rparr>, []))"
proof -
  let ?m = "\<lparr>vertex = [(0, (0, 0, 0)), (1, (1, 0, 0)), (2, (0, 1, 0)), (3, (5, 5, 5))],
       face = [(0 :: fkey, [0, 1, 2 :: vkey])]\<rparr>"
  have a: "(3::nat) \<in> set (vertices ?m)" by (simp add: vertices_def)
  have b: "(3::nat) \<notin> set (case None of None \<Rightarrow> [] | Some keys \<Rightarrow> keys)" by simp
  have c: "incident_faces ?m 3 = []"
    by (simp add: incident_faces_def faces_def face_vertices_def)
  have d: "(1::int) \<le> 1" by simp
  have e: "mesh_planarize (\<lambda>ps. Inr ((1/3, 1/3, 0), (0, 0, 1))) ?m
     None 1 1 (PyNone :: unit py_object) () = Inl (EmptyInputError, (?m, []))"
    by (simp add: planarize_eval)
  from mesh_planarize_isolated_vertex_raises [OF a b c d,
      of "\<lambda>ps. Inr ((1/3, 1/3, 0), (0, 0, 1))" 1 "PyNone :: unit py_object" "()"] a b c d e
  show ?thesis by (simp only: simp_thms)
qed

subsection \<open>Rounding to binary64\<close>














subsection \<open>The kernel as a parameter\<close>

text \<open>With the exact kernel, \<open>mesh_planarize_with\<close> is \<open>mesh_planarize\<close>.\<close>

lemma face_pass_with_exact:
  "face_pass_with project_points_plane bestfit m key_xyz fkeys = face_pass bestfit m key_xyz fkeys"
  by (induction fkeys arbitrary: key_xyz) (simp_all split: sum.splits)

lemma vertex_pass_with_exact:
  "vertex_pass_with centroid_points fixed key_xyz m keys = vertex_pass fixed key_xyz m keys"
  by (induction keys arbitrary: m) (simp_all split: sum.splits option.splits)

lemma update_positions_with_exact:
  "update_positions_with project_points_plane centroid_points bestfit fixed m =
   update_positions bestfit fixed m"
  by (simp add: update_positions_with_def update_positions_def face_pass_with_exact
      vertex_pass_with_exact split: sum.splits)

lemma planarize_loop_with_exact:
  "planarize_loop_with project_points_plane centroid_points bestfit fixed callback callback_args s ks
   = planarize_loop bestfit fixed callback callback_args s ks"
proof (induction ks arbitrary: s)
  case Nil
  show ?case by simp
next
  case (Cons k ks)
  have "planarize_step_with project_points_plane centroid_points bestfit fixed callback
          callback_args k s = planarize_step bestfit fixed callback callback_args k s"
    by (cases s) (simp add: update_positions_with_exact)
  with Cons.IH show ?case by (simp split: sum.splits)
qed

lemma mesh_planarize_with_exact:
  "mesh_planarize_with project_points_plane centroid_points bestfit m fixed kmax d callback
     callback_args = mesh_planarize bestfit m fixed kmax d callback callback_args"
  by (simp add: mesh_planarize_with_def mesh_planarize_def planarize_loop_with_exact)

subsection \<open>Planar faces stay where they are, up to rounding\<close>

lemma project_point_plane_on_plane:
  "dot_vectors (subtract_vectors p base) normal = 0 \<Longrightarrow> project_point_plane p (base, normal) = p"
  by (cases p; cases base; cases normal) simp

lemma project_points_plane_on_plane:
  "\<forall>p\<in>set points. dot_vectors (subtract_vectors p base) normal = 0 \<Longrightarrow>
   project_points_plane points (base, normal) = points"
  unfolding project_points_plane_def
  by (induction points) (simp_all add: project_point_plane_on_plane del: project_point_plane.simps)


lemma face_coordinates_in_faces:
  assumes "face_coordinates m fkey = Inr points"
  shows "fkey \<in> set (faces m)"
proof -
  from assms obtain keys where "map_of (face m) fkey = Some keys"
    by (cases "map_of (face m) fkey") (simp_all add: face_coordinates_def face_vertices_def)
  then have "(fkey, keys) \<in> set (face m)" by (rule map_of_SomeD)
  then show ?thesis unfolding faces_def by force
qed

lemma faces_fitD:
  assumes "faces_fit bestfit m" and "face_coordinates m fkey = Inr points"
    and "bestfit points = Inr (base, normal)"
  shows "\<forall>p\<in>set points. dot_vectors (subtract_vectors p base) normal = 0"
proof -
  from face_coordinates_in_faces [OF assms(2)] assms(1,2)
  have "face_fits bestfit points" by (auto simp: faces_fit_def list_all_iff)
  with assms(3) show ?thesis by (simp add: face_fits_def list_all_iff)
qed


text \<open>
  Without rounding, the projection leaves the corners of a planar face where they are.
\<close>

lemma faces_fit_fixed:
  assumes "faces_fit bestfit m"
  shows "faces_fixed project_points_plane bestfit m"
  unfolding faces_fixed_def list_all_iff
proof
  fix fkey
  assume "fkey \<in> set (faces m)"
  show "case face_coordinates m fkey of Inl e \<Rightarrow> True
        | Inr points \<Rightarrow> (case bestfit points of Inl e \<Rightarrow> True
            | Inr plane \<Rightarrow> project_points_plane points plane = points)"
  proof (cases "face_coordinates m fkey")
    case (Inl e)
    then show ?thesis by simp
  next
    case (Inr points)
    show ?thesis
    proof (cases "bestfit points")
      case (Inl e)
      with Inr show ?thesis by simp
    next
      case inr: (Inr plane)
      obtain base normal where pl: "plane = (base, normal)" by (cases plane)
      from faces_fitD [OF assms Inr inr [unfolded pl]]
      have "project_points_plane points (base, normal) = points"
        by (rule project_points_plane_on_plane)
      with Inr inr pl show ?thesis by simp
    qed
  qed
qed

























subsection \<open>The flatness metric\<close>

lemma window3_length: "length (window3 xs) = length xs - 2"
  by (induction xs rule: window3.induct) simp_all








text \<open>A face for which the body of the loop returns has at least two corners.\<close>

lemma face_flatness_length:
  assumes "face_flatness bestfit points = Inr a"
  shows "2 \<le> length points"
proof (rule ccontr)
  assume "\<not> 2 \<le> length points"
  then have "length (points @ take 2 points) < 3" by auto
  then have "window3 (points @ take 2 points) = []"
    using window3_length [of "points @ take 2 points"] by auto
  with assms show False
    by (auto simp: face_flatness_def split: sum.splits prod.splits)
qed



subsection \<open>A straight corner\<close>

text \<open>
  A planar face with a straight corner: the corners 0, 1 and 2 of this quadrilateral are
  collinear, the local normal at corner 1 is the zero vector, and the angle to it is
  undefined. \<^verbatim>\<open>mesh_flatness\<close> raises; the coordinates are small integers, and nothing is
  rounded on the way.
\<close>

lemma mesh_flatness_straight_corner_raises:
  "mesh_flatness (\<lambda>ps. Inr ((3/4, 1/4, 0), (0, 0, 1)))
     \<lparr>vertex = [(0, (0, 0, 0)), (1, (1, 0, 0)), (2, (2, 0, 0)), (3, (0, 1, 0))],
      face = [(0, [0, 1, 2, 3])]\<rparr> = Inl ZeroLengthError"
  by (simp add: flatness_eval)

end
